theory Spec2Isabelle
  imports Complex_Main
begin

section \<open>The performance monitor of \<open>om_performance_monitor/monitors.py\<close>\<close>

text \<open>
  The module defines one dataclass, \<open>PerformanceMonitor\<close>, with four fields and the
  methods \<open>start\<close>, \<open>end\<close>, \<open>reset\<close>, \<open>save_block\<close>, \<open>log_time\<close> and the
  context-manager hooks \<open>__enter__\<close> and \<open>__exit__\<close>.

  Modelling decisions.
  \<^item> Timestamps are Python floats. The model is polymorphic in the timestamp type
    \<open>'t\<close> and only asks for a subtraction on it (class \<open>minus\<close>, which has no axioms),
    so each theorem holds for whatever the float subtraction computes.
  \<^item> \<open>time.perf_counter()\<close> is an input: the reading of the clock is passed to
    \<open>start\<close> and \<open>end\<close> as the argument \<open>now\<close>.
  \<^item> The fields have their declared types: \<open>Optional[float]\<close> is \<open>'t option\<close>, the
    dict of saved blocks is a map from names to the three-entry dict that
    \<open>save_block\<close> writes, the logger is an optional function.
  \<^item> The logger is foreign code with an effect. It acts on a world \<open>'w\<close> (for
    \<open>print\<close>, the lines on standard output) and may raise; it has no access to the
    monitor.
  \<^item> How an f-string renders a float is the parameter \<open>str\<close> of \<open>log_time\<close>.
  \<^item> A method returns the exception it raised (\<open>None\<close> for a normal return) with the
    monitor after the call: a Python exception does not undo the assignments made
    before it.
\<close>

subsection \<open>Exceptions\<close>

text \<open>
  \<open>from exceptions import SaveError, TimerError\<close>: the two classes the module
  raises, each carrying its message. \<open>Custom\<close> stands for every exception raised
  by foreign code (the body of a \<open>with\<close> block, the logger).
\<close>

datatype 'x exn =
    TimerError string
  | SaveError string
  | Custom 'x

fun is_TimerError :: "'x exn \<Rightarrow> bool" where
  "is_TimerError (TimerError m) = True"
| "is_TimerError (SaveError m) = False"
| "is_TimerError (Custom x) = False"

fun is_SaveError :: "'x exn \<Rightarrow> bool" where
  "is_SaveError (TimerError m) = False"
| "is_SaveError (SaveError m) = True"
| "is_SaveError (Custom x) = False"

subsection \<open>The dataclass\<close>

text \<open>The value stored under a block name: the dict with the keys
  \<open>"start_time"\<close>, \<open>"end_time"\<close> and \<open>"elapsed"\<close>.\<close>

record 't timer_block =
  blk_start_time :: 't
  blk_end_time :: 't
  blk_elapsed :: 't

type_synonym ('w, 'x) sink = "string \<Rightarrow> 'w \<Rightarrow> 'x exn option \<times> 'w"

record ('t, 'w, 'x) PerformanceMonitor =
  start_time :: "'t option"
  end_time :: "'t option"
  timer_blocks :: "string \<rightharpoonup> 't timer_block"
  logger :: "('w, 'x) sink option"

type_synonym ('t, 'w, 'x) outcome = "'x exn option \<times> ('t, 'w, 'x) PerformanceMonitor"

text \<open>\<open>print\<close>, the default logger: one more line on standard output.\<close>

definition py_print :: "(string list, 'x) sink" where
  "py_print line out = (None, out @ [line])"

text \<open>The generated constructor: \<open>start_time\<close> and \<open>end_time\<close> are
  \<open>init=False\<close> with default \<open>None\<close>; \<open>timer_blocks\<close> and \<open>logger\<close> are
  arguments (defaults: an empty dict and \<open>print\<close>).\<close>

definition init :: "(string \<rightharpoonup> 't timer_block) \<Rightarrow> ('w, 'x) sink option
    \<Rightarrow> ('t, 'w, 'x) PerformanceMonitor" where
  "init blocks lg =
     \<lparr>start_time = None, end_time = None, timer_blocks = blocks, logger = lg\<rparr>"

definition init_default :: "('t, string list, 'x) PerformanceMonitor" where
  "init_default = init Map.empty (Some py_print)"

subsection \<open>The methods\<close>

definition start :: "'t \<Rightarrow> ('t, 'w, 'x) PerformanceMonitor \<Rightarrow> ('t, 'w, 'x) outcome" where
  "start now self = (None, self\<lparr>start_time := Some now\<rparr>)"

text \<open>The messages of the three \<open>TimerError\<close>s: the one of \<open>end\<close> (the
  timer was not started) and the two of \<open>log_time\<close> (no saved block under the
  name, no logger configured).\<close>

definition msg_not_started :: string where
  "msg_not_started = ''Timer was not started. Call Timer.start() to begin the timer\<newline>''"

definition msg_no_saved_block :: string where
  "msg_no_saved_block =
     ''No saved timer blocks. Call Timer.save_block() to save a timer block or start/end a timer and save it''"

definition msg_no_logger :: string where
  "msg_no_logger = ''No logger configured with the timer''"

definition end_timer :: "'t \<Rightarrow> ('t, 'w, 'x) PerformanceMonitor \<Rightarrow> ('t, 'w, 'x) outcome" where
  "end_timer now self =
     (if start_time self = None
      then (Some (TimerError msg_not_started), self)
      else (None, self\<lparr>end_time := Some now\<rparr>))"

definition reset :: "bool \<Rightarrow> ('t, 'w, 'x) PerformanceMonitor \<Rightarrow> ('t, 'w, 'x) outcome" where
  "reset clear_blocks self =
     (let self1 = self\<lparr>start_time := None\<rparr>;
          self2 = self1\<lparr>end_time := None\<rparr>
      in if clear_blocks then (None, self2\<lparr>timer_blocks := Map.empty\<rparr>)
         else (None, self2))"

text \<open>\<open>float(v)\<close> for \<open>v : Optional[float]\<close>: the float itself, and a
  \<open>TypeError\<close> for \<open>None\<close> (the text is CPython's, from 3.10 on; no theorem
  depends on it).\<close>

definition float_TypeError :: string where
  "float_TypeError =
     ''float() argument must be a string or a real number, not ''
       @ [CHR 0x27] @ ''NoneType'' @ [CHR 0x27]"

definition py_float :: "'t option \<Rightarrow> string + 't" where
  "py_float v = (case v of None \<Rightarrow> Inl float_TypeError | Some x \<Rightarrow> Inr x)"

definition save_error :: "string \<Rightarrow> 'x exn" where
  "save_error e = SaveError (''Error saving timer block. Error: '' @ e @ ''\<newline>'')"

text \<open>\<open>float(self.end_time)\<close> is evaluated before \<open>float(self.start_time)\<close>;
  the dict is updated only when both conversions and the subtraction are done.\<close>

definition save_block :: "string \<Rightarrow> ('t::minus, 'w, 'x) PerformanceMonitor
    \<Rightarrow> ('t, 'w, 'x) outcome" where
  "save_block block_name self =
     (case py_float (end_time self) of
        Inl e \<Rightarrow> (Some (save_error e), self)
      | Inr en \<Rightarrow>
          (case py_float (start_time self) of
             Inl e \<Rightarrow> (Some (save_error e), self)
           | Inr st \<Rightarrow>
               (let elapsed = en - st
                in (None, self\<lparr>timer_blocks := (timer_blocks self)(block_name \<mapsto>
                      \<lparr>blk_start_time = st, blk_end_time = en, blk_elapsed = elapsed\<rparr>)\<rparr>))))"

text \<open>The f-string of \<open>log_time\<close>.\<close>

definition log_line :: "('t \<Rightarrow> string) \<Rightarrow> string \<Rightarrow> 't timer_block \<Rightarrow> string" where
  "log_line str block_name timer_block =
     block_name @ '' timer | start time: '' @ str (blk_start_time timer_block)
       @ '' | end time: '' @ str (blk_end_time timer_block)
       @ '' | elapsed: '' @ str (blk_elapsed timer_block)"

text \<open>The lookup comes first, the test of the logger second, the call last.\<close>

definition log_time :: "('t \<Rightarrow> string) \<Rightarrow> string \<Rightarrow> ('t, 'w, 'x) PerformanceMonitor \<Rightarrow> 'w
    \<Rightarrow> 'x exn option \<times> ('t, 'w, 'x) PerformanceMonitor \<times> 'w" where
  "log_time str block_name self w =
     (case timer_blocks self block_name of
        None \<Rightarrow> (Some (TimerError msg_no_saved_block), self, w)
      | Some timer_block \<Rightarrow>
          (case logger self of
             None \<Rightarrow> (Some (TimerError msg_no_logger), self, w)
           | Some lg \<Rightarrow>
               (case lg (log_line str block_name timer_block) w of
                  (r, w') \<Rightarrow> (r, self, w'))))"

subsection \<open>The context manager\<close>

definition enter :: "'t \<Rightarrow> ('t, 'w, 'x) PerformanceMonitor \<Rightarrow> ('t, 'w, 'x) outcome" where
  "enter now self = start now self"

text \<open>\<open>__exit__\<close> ignores \<open>exc_info\<close> and returns \<open>None\<close>: three calls in a row,
  the first exception ends it.\<close>

definition exit :: "('t \<Rightarrow> string) \<Rightarrow> 't \<Rightarrow> ('t::minus, 'w, 'x) PerformanceMonitor \<Rightarrow> 'w
    \<Rightarrow> 'x exn option \<times> ('t, 'w, 'x) PerformanceMonitor \<times> 'w" where
  "exit str now self w =
     (case end_timer now self of
        (Some e, self1) \<Rightarrow> (Some e, self1, w)
      | (None, self1) \<Rightarrow>
          (case save_block ''ctx_manager'' self1 of
             (Some e, self2) \<Rightarrow> (Some e, self2, w)
           | (None, self2) \<Rightarrow> log_time str ''ctx_manager'' self2 w))"

text \<open>
  \<open>with monitor as m: body\<close>. The body is foreign code that holds the monitor
  (\<open>__enter__\<close> returns \<open>self\<close>): it may change the monitor and the world, and it
  returns normally or raises. Python then calls \<open>__exit__\<close>; an exception raised by
  \<open>__exit__\<close> replaces the one of the body, and since \<open>__exit__\<close> returns \<open>None\<close>
  (not true), the exception of the body is raised again otherwise.
\<close>

type_synonym ('t, 'w, 'x) body =
  "('t, 'w, 'x) PerformanceMonitor \<Rightarrow> 'w \<Rightarrow> 'x exn option \<times> ('t, 'w, 'x) PerformanceMonitor \<times> 'w"

definition with_monitor :: "('t \<Rightarrow> string) \<Rightarrow> 't \<Rightarrow> 't \<Rightarrow> ('t, 'w, 'x) body
    \<Rightarrow> ('t::minus, 'w, 'x) PerformanceMonitor \<Rightarrow> 'w
    \<Rightarrow> 'x exn option \<times> ('t, 'w, 'x) PerformanceMonitor \<times> 'w" where
  "with_monitor str t_enter t_exit body self w =
     (case enter t_enter self of
        (Some e, self0) \<Rightarrow> (Some e, self0, w)
      | (None, self0) \<Rightarrow>
          (case body self0 w of
             (r, self1, w1) \<Rightarrow>
               (case exit str t_exit self1 w1 of
                  (Some e, self2, w2) \<Rightarrow> (Some e, self2, w2)
                | (None, self2, w2) \<Rightarrow> (r, self2, w2))))"

subsection \<open>Concrete runs\<close>

text \<open>
  The inputs of the examples: timestamps are reals, the world is the list of lines
  printed so far, a foreign exception is named by a string. \<open>demo_str\<close> gives
  Python's rendering of the four floats that occur.
\<close>

definition demo_str :: "real \<Rightarrow> string" where
  "demo_str t = (if t = 0 then ''0.0'' else if t = 1 / 4 then ''0.25''
                 else if t = 1 then ''1.0'' else ''2.0'')"

text \<open>\<open>PerformanceMonitor()\<close>; the same after \<open>start\<close> at 0 and \<open>end\<close> at 0.25;
  the same with a block saved under \<open>"x"\<close> before.\<close>

definition fresh :: "(real, string list, string) PerformanceMonitor" where
  "fresh = init_default"

definition stopped :: "(real, string list, string) PerformanceMonitor" where
  "stopped = fresh\<lparr>start_time := Some 0, end_time := Some (1 / 4)\<rparr>"

definition saved_x :: "(real, string list, string) PerformanceMonitor" where
  "saved_x = stopped\<lparr>timer_blocks := [''x'' \<mapsto>
      \<lparr>blk_start_time = 1, blk_end_time = 2, blk_elapsed = 1\<rparr>]\<rparr>"

text \<open>\<open>PerformanceMonitor(logger=None)\<close>, without and with a saved block.\<close>

definition no_sink :: "(real, string list, string) PerformanceMonitor" where
  "no_sink = init Map.empty None"

definition saved_x_no_sink :: "(real, string list, string) PerformanceMonitor" where
  "saved_x_no_sink = saved_x\<lparr>logger := None\<rparr>"

text \<open>Two bodies of a \<open>with\<close> block: \<open>raise Boom()\<close>, and
  \<open>m.reset(); raise Boom()\<close>. A logger that raises, and a monitor built with it.\<close>

definition body_raise :: "(real, string list, string) body" where
  "body_raise self w = (Some (Custom ''Boom''), self, w)"

definition body_reset_raise :: "(real, string list, string) body" where
  "body_reset_raise self w =
     (case reset False self of (_, self') \<Rightarrow> (Some (Custom ''Boom''), self', w))"

definition failing_sink :: "(string list, string) sink" where
  "failing_sink line w = (Some (Custom ''SinkDown''), w)"

definition fresh_failing_sink :: "(real, string list, string) PerformanceMonitor" where
  "fresh_failing_sink = init Map.empty (Some failing_sink)"

section \<open>Properties\<close>

lemmas demo_defs = fresh_def stopped_def saved_x_def init_default_def init_def
  no_sink_def saved_x_no_sink_def

lemmas body_defs = body_raise_def body_reset_raise_def failing_sink_def
  fresh_failing_sink_def

subsection \<open>Saving a block\<close>

text \<open>
  C1. In every state whose \<open>start_time\<close> and \<open>end_time\<close> are both set,
  \<open>save_block name\<close> returns normally and changes the monitor in one place only: the
  entry of \<open>name\<close> in the saved blocks becomes the start time, the end time and
  their difference \<open>end_time - start_time\<close>, with no test of its sign. When
  \<open>name\<close> was saved before, its entry is replaced and the set of saved names, hence
  the size of the mapping, is the same.
\<close>

theorem save_block_stores:
  assumes "start_time self = Some st" and "end_time self = Some en"
  shows "save_block block_name self =
           (None, self\<lparr>timer_blocks := (timer_blocks self)(block_name \<mapsto>
              \<lparr>blk_start_time = st, blk_end_time = en, blk_elapsed = en - st\<rparr>)\<rparr>)
         \<and> (block_name \<in> dom (timer_blocks self) \<longrightarrow>
              dom (timer_blocks (snd (save_block block_name self))) = dom (timer_blocks self)
              \<and> card (dom (timer_blocks (snd (save_block block_name self))))
                  = card (dom (timer_blocks self)))"
  using assms by (auto simp: save_block_def py_float_def insert_absorb domI)

theorem save_block_stores_witness:
  "start_time saved_x = Some 0 \<and> end_time saved_x = Some (1 / 4)
   \<and> ''x'' \<in> dom (timer_blocks saved_x)
   \<and> timer_blocks saved_x ''x''
        = Some \<lparr>blk_start_time = 1, blk_end_time = 2, blk_elapsed = 1\<rparr>
   \<and> fst (save_block ''x'' saved_x) = None
   \<and> timer_blocks (snd (save_block ''x'' saved_x)) ''x''
        = Some \<lparr>blk_start_time = 0, blk_end_time = 1 / 4, blk_elapsed = 1 / 4\<rparr>
   \<and> card (dom (timer_blocks (snd (save_block ''x'' saved_x)))) = 1"
  using save_block_stores [of saved_x 0 "1 / 4" "''x''"]
  by (simp add: demo_defs)

text \<open>
  C5. In every state in which \<open>start_time\<close> or \<open>end_time\<close> is \<open>None\<close>,
  \<open>save_block name\<close> raises \<open>SaveError\<close> (its message wraps the \<open>TypeError\<close> of
  \<open>float(None)\<close>) and the monitor, the saved blocks included, is as it was.
\<close>

theorem save_block_missing_time:
  assumes "start_time self = None \<or> end_time self = None"
  shows "save_block block_name self =
           (Some (SaveError (''Error saving timer block. Error: '' @ float_TypeError
                              @ ''\<newline>'')), self)"
  using assms
  by (auto simp: save_block_def py_float_def save_error_def split: option.splits)

theorem save_block_missing_time_witness:
  "(start_time fresh = None \<or> end_time fresh = None)
   \<and> save_block ''x'' fresh = (Some (save_error float_TypeError), fresh)
   \<and> (start_time (snd (start 0 fresh)) = None \<or> end_time (snd (start 0 fresh)) = None)
   \<and> save_block ''x'' (snd (start 0 fresh))
        = (Some (save_error float_TypeError), snd (start 0 fresh))"
  using save_block_missing_time [of fresh "''x''"]
    save_block_missing_time [of "snd (start 0 fresh)" "''x''"]
  by (simp add: demo_defs start_def save_error_def)

text \<open>
  C10. Whether \<open>save_block\<close> raises depends on the two timestamps alone: it raises
  exactly when \<open>start_time\<close> or \<open>end_time\<close> is \<open>None\<close> (a value that is not a
  float is excluded by the declared type \<open>Optional[float]\<close> of the fields), and
  it raises for one name exactly when it raises for any other. The name is never
  inspected: with both timestamps set, \<open>save_block("")\<close> returns normally and
  stores the block under the empty string.
\<close>

theorem save_block_any_name:
  "(fst (save_block block_name self) \<noteq> None
      \<longleftrightarrow> start_time self = None \<or> end_time self = None)
   \<and> (fst (save_block block_name self) = None
      \<longleftrightarrow> fst (save_block other_name self) = None)
   \<and> (start_time self = Some st \<and> end_time self = Some en \<longrightarrow>
         save_block [] self
           = (None, self\<lparr>timer_blocks := (timer_blocks self)([] \<mapsto>
                \<lparr>blk_start_time = st, blk_end_time = en, blk_elapsed = en - st\<rparr>)\<rparr>))"
  by (auto simp: save_block_def py_float_def split: option.splits)

theorem save_block_any_name_witness:
  "start_time stopped = Some 0 \<and> end_time stopped = Some (1 / 4)
   \<and> fst (save_block '''' stopped) = None
   \<and> timer_blocks (snd (save_block '''' stopped)) ''''
       = Some \<lparr>blk_start_time = 0, blk_end_time = 1 / 4, blk_elapsed = 1 / 4\<rparr>
   \<and> start_time fresh = None
   \<and> fst (save_block '''' fresh) \<noteq> None"
  using save_block_any_name [of "''''" stopped "''x''" 0 "1 / 4"]
    save_block_any_name [of "''''" fresh "''''" 0 0]
  by (simp add: demo_defs)

subsection \<open>Starting, stopping and resetting\<close>

text \<open>
  C4. In every state whose \<open>start_time\<close> is \<open>None\<close>, \<open>end\<close> raises the
  \<open>TimerError\<close> "Timer was not started ..." and leaves the monitor as it was; in
  every state whose \<open>start_time\<close> is set, \<open>end\<close> returns normally and the only
  change is that \<open>end_time\<close> holds the reading of the clock.
\<close>

theorem end_timer_guard:
  "(start_time self = None \<longrightarrow>
      end_timer now self = (Some (TimerError msg_not_started), self))
   \<and> (start_time self \<noteq> None \<longrightarrow>
      end_timer now self = (None, self\<lparr>end_time := Some now\<rparr>))"
  by (simp add: end_timer_def)

theorem end_timer_guard_witness:
  "start_time fresh = None
   \<and> end_timer 1 fresh = (Some (TimerError msg_not_started), fresh)
   \<and> start_time stopped \<noteq> None
   \<and> fst (end_timer 1 stopped) = None
   \<and> end_time (snd (end_timer 1 stopped)) = Some 1"
  using end_timer_guard [of fresh 1] end_timer_guard [of stopped 1]
  by (simp add: demo_defs)

text \<open>
  C6. For every state and either value of the flag, \<open>reset clear_blocks\<close> returns
  normally with \<open>start_time\<close> and \<open>end_time\<close> set to \<open>None\<close>; the saved blocks are
  the empty mapping when the flag is true and exactly the old mapping when it is
  false (the default of the parameter); the logger is not touched.
\<close>

theorem reset_effect:
  "fst (reset clear_blocks self) = None
   \<and> start_time (snd (reset clear_blocks self)) = None
   \<and> end_time (snd (reset clear_blocks self)) = None
   \<and> timer_blocks (snd (reset clear_blocks self))
        = (if clear_blocks then Map.empty else timer_blocks self)
   \<and> logger (snd (reset clear_blocks self)) = logger self
   \<and> reset clear_blocks self
        = (None, self\<lparr>start_time := None, end_time := None,
             timer_blocks := (if clear_blocks then Map.empty else timer_blocks self)\<rparr>)"
  by (simp add: reset_def Let_def)

theorem reset_effect_witness:
  "timer_blocks (snd (reset False saved_x)) = timer_blocks saved_x
   \<and> timer_blocks (snd (reset False saved_x)) ''x'' \<noteq> None
   \<and> timer_blocks (snd (reset True saved_x)) = Map.empty
   \<and> start_time (snd (reset False saved_x)) = None
   \<and> end_time (snd (reset True saved_x)) = None
   \<and> start_time saved_x \<noteq> None"
  using reset_effect [of False saved_x] reset_effect [of True saved_x]
  by (simp add: demo_defs)

text \<open>
  C8. \<open>start\<close> never raises and assigns \<open>start_time\<close> only: \<open>end_time\<close>, the
  saved blocks and the logger are as before. So in the sequence \<open>start\<close> (clock
  \<open>t1\<close>), \<open>end\<close> (clock \<open>t2\<close>), \<open>start\<close> (clock \<open>t3\<close>), \<open>save_block name\<close>
  every call returns normally and the block stored pairs the new start \<open>t3\<close> with
  the old end \<open>t2\<close>, its elapsed being \<open>t2 - t3\<close>. With the readings 0, 1 and 2
  the stored elapsed is \<open>-1\<close>, a negative duration.
\<close>

theorem start_frame_and_stale_end:
  "fst (start now self) = None
   \<and> start_time (snd (start now self)) = Some now
   \<and> end_time (snd (start now self)) = end_time self
   \<and> timer_blocks (snd (start now self)) = timer_blocks self
   \<and> logger (snd (start now self)) = logger self
   \<and> fst (start t1 self) = None
   \<and> fst (end_timer t2 (snd (start t1 self))) = None
   \<and> fst (start t3 (snd (end_timer t2 (snd (start t1 self))))) = None
   \<and> save_block block_name (snd (start t3 (snd (end_timer t2 (snd (start t1 self))))))
       = (None, self\<lparr>start_time := Some t3, end_time := Some t2,
            timer_blocks := (timer_blocks self)(block_name \<mapsto>
              \<lparr>blk_start_time = t3, blk_end_time = t2, blk_elapsed = t2 - t3\<rparr>)\<rparr>)
   \<and> timer_blocks
         (snd (save_block ''x'' (snd (start 2 (snd (end_timer 1 (snd (start 0 fresh)))))))) ''x''
       = Some \<lparr>blk_start_time = 2, blk_end_time = 1, blk_elapsed = - 1\<rparr>
   \<and> map_option (\<lambda>b. blk_elapsed b < 0)
         (timer_blocks
           (snd (save_block ''x'' (snd (start 2 (snd (end_timer 1 (snd (start 0 fresh))))))))
           ''x'')
       = Some True"
  by (simp add: start_def end_timer_def save_block_def py_float_def demo_defs)

theorem start_frame_and_stale_end_witness:
  "end_time (snd (start 2 stopped)) = Some (1 / 4)
   \<and> timer_blocks (snd (start 2 saved_x)) = timer_blocks saved_x
   \<and> save_block ''y'' (snd (start 2 (snd (end_timer 1 (snd (start 0 saved_x))))))
       = (None, saved_x\<lparr>start_time := Some 2, end_time := Some 1,
            timer_blocks := (timer_blocks saved_x)(''y'' \<mapsto>
              \<lparr>blk_start_time = 2, blk_end_time = 1, blk_elapsed = - 1\<rparr>)\<rparr>)"
  using start_frame_and_stale_end [of 2 stopped 0 1 2 "''y''"]
    start_frame_and_stale_end [of 2 saved_x 0 1 2 "''y''"]
  by (simp add: demo_defs)

subsection \<open>Logging a block\<close>

text \<open>
  C2, as the code has it. \<open>log_time\<close> looks the name up before it tests the
  logger. For every name that has a saved block, \<open>log_time name\<close> on a monitor
  without a logger raises the \<open>TimerError\<close> "No logger configured with the
  timer". For every name that has no saved block it raises the \<open>TimerError\<close>
  "No saved timer blocks ..." instead, whether a logger is configured or not, and
  the logger is not called. In both cases the monitor and the world are unchanged.
\<close>

theorem log_time_no_sink:
  "(logger self = None \<and> timer_blocks self block_name \<noteq> None \<longrightarrow>
      log_time str block_name self w = (Some (TimerError msg_no_logger), self, w))
   \<and> (timer_blocks self block_name = None \<longrightarrow>
      log_time str block_name self w = (Some (TimerError msg_no_saved_block), self, w))
   \<and> msg_no_saved_block \<noteq> msg_no_logger"
  by (auto simp: log_time_def msg_no_saved_block_def msg_no_logger_def)

theorem log_time_no_sink_witness:
  "logger saved_x_no_sink = None
   \<and> timer_blocks saved_x_no_sink ''x'' \<noteq> None
   \<and> log_time demo_str ''x'' saved_x_no_sink []
        = (Some (TimerError msg_no_logger), saved_x_no_sink, [])
   \<and> timer_blocks saved_x_no_sink ''y'' = None
   \<and> log_time demo_str ''y'' saved_x_no_sink []
        = (Some (TimerError msg_no_saved_block), saved_x_no_sink, [])
   \<and> logger saved_x = Some py_print
   \<and> timer_blocks saved_x ''y'' = None
   \<and> log_time demo_str ''y'' saved_x []
        = (Some (TimerError msg_no_saved_block), saved_x, [])"
  using log_time_no_sink [of saved_x_no_sink "''x''" demo_str "[]"]
    log_time_no_sink [of saved_x_no_sink "''y''" demo_str "[]"]
    log_time_no_sink [of saved_x "''y''" demo_str "[]"]
  by (simp add: demo_defs)

text \<open>
  C2, as the claim has it, fails: on \<open>PerformanceMonitor(logger=None)\<close> with no
  saved block, \<open>log_time("x")\<close> raises the error of the missing block, not the
  error of the missing logger.
\<close>

theorem log_time_no_sink_counterexample:
  "logger no_sink = None
   \<and> log_time demo_str ''x'' no_sink [] = (Some (TimerError msg_no_saved_block), no_sink, [])
   \<and> fst (log_time demo_str ''x'' no_sink []) \<noteq> Some (TimerError msg_no_logger)"
  by (simp add: log_time_def demo_defs msg_no_saved_block_def msg_no_logger_def)

text \<open>
  C7, as the code has it. For every name with a saved block and every configured
  logger, \<open>log_time name\<close> calls the logger once, on the line
  \<open>name\<close> \<open>" timer | start time: "\<close> start \<open>" | end time: "\<close> end
  \<open>" | elapsed: "\<close> elapsed: the name comes first and is followed by the word
  "timer", each of the three numbers is preceded by its label, and the four parts
  are separated by \<open>" | "\<close>. The outcome and the new world are those of that one
  call; the monitor is unchanged.
\<close>

theorem log_time_line:
  assumes "timer_blocks self block_name = Some b" and "logger self = Some lg"
  shows "log_time str block_name self w =
           (fst (lg (block_name @ '' timer | start time: '' @ str (blk_start_time b)
                       @ '' | end time: '' @ str (blk_end_time b)
                       @ '' | elapsed: '' @ str (blk_elapsed b)) w),
            self,
            snd (lg (block_name @ '' timer | start time: '' @ str (blk_start_time b)
                       @ '' | end time: '' @ str (blk_end_time b)
                       @ '' | elapsed: '' @ str (blk_elapsed b)) w))"
  using assms by (simp add: log_time_def log_line_def split: prod.splits)

theorem log_time_line_witness:
  "timer_blocks (snd (save_block ''x'' stopped)) ''x''
     = Some \<lparr>blk_start_time = 0, blk_end_time = 1 / 4, blk_elapsed = 1 / 4\<rparr>
   \<and> logger (snd (save_block ''x'' stopped)) = Some py_print
   \<and> log_time demo_str ''x'' (snd (save_block ''x'' stopped)) []
       = (None, snd (save_block ''x'' stopped),
          [''x timer | start time: 0.0 | end time: 0.25 | elapsed: 0.25''])"
  using log_time_line [of "snd (save_block ''x'' stopped)" "''x''"
      "\<lparr>blk_start_time = 0, blk_end_time = 1 / 4, blk_elapsed = 1 / 4\<rparr>" py_print demo_str "[]"]
  by (simp add: demo_defs save_block_def py_float_def py_print_def demo_str_def)

text \<open>
  C7, as the claim has it, fails in one point: the block name is not preceded by a
  label. After \<open>start\<close> at 0, \<open>end\<close> at 0.25 and \<open>save_block("x")\<close>, the line
  printed by \<open>log_time("x")\<close> begins with the name itself, and the name occurs
  nowhere else in the line.
\<close>

theorem log_time_line_counterexample:
  "snd (snd (log_time demo_str ''x'' (snd (save_block ''x'' stopped)) []))
     = [''x timer | start time: 0.0 | end time: 0.25 | elapsed: 0.25'']
   \<and> take 1 ''x timer | start time: 0.0 | end time: 0.25 | elapsed: 0.25'' = ''x''
   \<and> CHR ''x'' \<notin> set (drop 1 ''x timer | start time: 0.0 | end time: 0.25 | elapsed: 0.25'')"
  by (simp add: log_time_def log_line_def demo_defs save_block_def py_float_def
        py_print_def demo_str_def)

subsection \<open>The exception classes\<close>

text \<open>
  C9. The failure of \<open>end\<close> and the two failures of \<open>log_time\<close> are all
  \<open>TimerError\<close>s; their three messages are pairwise different, so the message is
  what tells them apart. Every exception of \<open>end\<close> is a \<open>TimerError\<close> and not a
  \<open>SaveError\<close>; every exception of \<open>save_block\<close> is a \<open>SaveError\<close> and not a
  \<open>TimerError\<close>, and \<open>save_block\<close> does raise when a timestamp is missing.
\<close>

theorem exception_types:
  "(start_time self = None \<longrightarrow> fst (end_timer now self) = Some (TimerError msg_not_started))
   \<and> (timer_blocks self block_name = None \<longrightarrow>
        fst (log_time str block_name self w) = Some (TimerError msg_no_saved_block))
   \<and> (timer_blocks self block_name \<noteq> None \<and> logger self = None \<longrightarrow>
        fst (log_time str block_name self w) = Some (TimerError msg_no_logger))
   \<and> msg_not_started \<noteq> msg_no_saved_block
   \<and> msg_not_started \<noteq> msg_no_logger
   \<and> msg_no_saved_block \<noteq> msg_no_logger
   \<and> (\<forall>e. fst (end_timer now self) = Some e \<longrightarrow> is_TimerError e \<and> \<not> is_SaveError e)
   \<and> (\<forall>e. fst (save_block block_name self) = Some e \<longrightarrow>
          is_SaveError e \<and> \<not> is_TimerError e)
   \<and> (start_time self = None \<or> end_time self = None \<longrightarrow>
          fst (save_block block_name self) \<noteq> None)"
  by (auto simp: end_timer_def log_time_def save_block_def py_float_def save_error_def
        msg_not_started_def msg_no_saved_block_def msg_no_logger_def
        split: option.splits if_splits)

theorem exception_types_witness:
  "start_time fresh = None
   \<and> fst (end_timer 1 fresh) = Some (TimerError msg_not_started)
   \<and> timer_blocks saved_x_no_sink ''y'' = None
   \<and> fst (log_time demo_str ''y'' saved_x_no_sink []) = Some (TimerError msg_no_saved_block)
   \<and> timer_blocks saved_x_no_sink ''x'' \<noteq> None \<and> logger saved_x_no_sink = None
   \<and> fst (log_time demo_str ''x'' saved_x_no_sink []) = Some (TimerError msg_no_logger)
   \<and> fst (save_block ''x'' fresh) = Some (save_error float_TypeError)
   \<and> is_SaveError (save_error float_TypeError :: string exn)
   \<and> \<not> is_TimerError (save_error float_TypeError :: string exn)"
  using exception_types [of fresh 1 "''y''" demo_str "[]"]
    exception_types [of saved_x_no_sink 1 "''y''" demo_str "[]"]
    exception_types [of saved_x_no_sink 1 "''x''" demo_str "[]"]
  by (simp add: demo_defs save_block_def py_float_def save_error_def)

subsection \<open>Leaving a \<open>with\<close> block\<close>

text \<open>
  C3, as the code has it. Let the body of the \<open>with\<close> block end, normally or by
  an exception, in a state whose \<open>start_time\<close> is set. Then \<open>__exit__\<close> calls
  \<open>end\<close>, which returns normally, then \<open>save_block("ctx_manager")\<close>, which
  returns normally and stores the block, then \<open>log_time("ctx_manager")\<close>, whose
  outcome is the outcome of \<open>__exit__\<close>. When a logger is configured and its call
  returns normally, the \<open>with\<close> statement ends as the body did: the exception of
  the body reaches the caller unchanged, and a body that returned normally gives a
  normal return.
\<close>

theorem with_monitor_exit:
  assumes "body (snd (enter t_enter self)) w = (r, self1, w1)"
      and "start_time self1 = Some st"
  shows "end_timer t_exit self1 = (None, self1\<lparr>end_time := Some t_exit\<rparr>)
         \<and> save_block ''ctx_manager'' (self1\<lparr>end_time := Some t_exit\<rparr>)
             = (None, self1\<lparr>end_time := Some t_exit,
                  timer_blocks := (timer_blocks self1)(''ctx_manager'' \<mapsto>
                    \<lparr>blk_start_time = st, blk_end_time = t_exit,
                     blk_elapsed = t_exit - st\<rparr>)\<rparr>)
         \<and> exit str t_exit self1 w1
             = log_time str ''ctx_manager''
                 (self1\<lparr>end_time := Some t_exit,
                    timer_blocks := (timer_blocks self1)(''ctx_manager'' \<mapsto>
                      \<lparr>blk_start_time = st, blk_end_time = t_exit,
                       blk_elapsed = t_exit - st\<rparr>)\<rparr>) w1
         \<and> (\<forall>lg w2.
               logger self1 = Some lg
               \<and> lg (''ctx_manager'' @ '' timer | start time: '' @ str st
                      @ '' | end time: '' @ str t_exit
                      @ '' | elapsed: '' @ str (t_exit - st)) w1 = (None, w2)
               \<longrightarrow> with_monitor str t_enter t_exit body self w
                     = (r, self1\<lparr>end_time := Some t_exit,
                          timer_blocks := (timer_blocks self1)(''ctx_manager'' \<mapsto>
                            \<lparr>blk_start_time = st, blk_end_time = t_exit,
                             blk_elapsed = t_exit - st\<rparr>)\<rparr>, w2))"
  using assms
  by (auto simp: with_monitor_def enter_def start_def exit_def end_timer_def
        save_block_def py_float_def log_time_def log_line_def)

theorem with_monitor_exit_witness:
  "body_raise (snd (enter 0 fresh)) [] = (Some (Custom ''Boom''), snd (enter 0 fresh), [])
   \<and> start_time (snd (enter 0 fresh)) = Some 0
   \<and> logger (snd (enter 0 fresh)) = Some py_print
   \<and> with_monitor demo_str 0 1 body_raise fresh []
       = (Some (Custom ''Boom''),
          fresh\<lparr>start_time := Some 0, end_time := Some 1,
            timer_blocks := [''ctx_manager'' \<mapsto>
              \<lparr>blk_start_time = 0, blk_end_time = 1, blk_elapsed = 1\<rparr>]\<rparr>,
          [''ctx_manager timer | start time: 0.0 | end time: 1.0 | elapsed: 1.0''])"
  using with_monitor_exit [of body_raise 0 fresh "[]" "Some (Custom ''Boom'')"
      "snd (enter 0 fresh)" "[]" 0 1 demo_str]
  by (simp add: body_defs demo_defs enter_def start_def py_print_def demo_str_def)

text \<open>
  C3, as the claim has it, fails on two runs, both with a logger configured. In
  the first the body calls \<open>reset()\<close> and raises \<open>Boom\<close>: \<open>end\<close> raises in
  \<open>__exit__\<close>, so nothing is saved under \<open>"ctx_manager"\<close>, nothing is printed, and
  the caller gets the \<open>TimerError\<close> in place of \<open>Boom\<close>. In the second the body
  raises \<open>Boom\<close> and the logger raises \<open>SinkDown\<close>: the caller gets \<open>SinkDown\<close>.
\<close>

theorem with_monitor_counterexample:
  "logger fresh = Some py_print
   \<and> with_monitor demo_str 0 1 body_reset_raise fresh []
        = (Some (TimerError msg_not_started), fresh, [])
   \<and> fst (with_monitor demo_str 0 1 body_reset_raise fresh []) \<noteq> Some (Custom ''Boom'')
   \<and> timer_blocks (fst (snd (with_monitor demo_str 0 1 body_reset_raise fresh [])))
        ''ctx_manager'' = None
   \<and> logger fresh_failing_sink = Some failing_sink
   \<and> fst (with_monitor demo_str 0 1 body_raise fresh_failing_sink [])
        = Some (Custom ''SinkDown'')
   \<and> fst (with_monitor demo_str 0 1 body_raise fresh_failing_sink [])
        \<noteq> Some (Custom ''Boom'')"
  by (simp add: with_monitor_def enter_def start_def exit_def end_timer_def reset_def
        save_block_def py_float_def log_time_def body_defs demo_defs)

end
